theory Spec2Isabelle
  imports Main "HOL-Library.Word" "HOL-Library.Signed_Division"
begin

section \<open>Go values\<close>

text \<open>
  A Go \<^verbatim>\<open>string\<close> is a sequence of bytes; it is modelled by \<^typ>\<open>string\<close>, a list
  of 8-bit characters. Go's \<^verbatim>\<open>int\<close> is modelled by \<^typ>\<open>int\<close> (the program only
  compares and prints the \<^verbatim>\<open>int\<close> values it handles), \<^verbatim>\<open>uint16\<close> and \<^verbatim>\<open>uint32\<close>
  by words of that width, and \<^verbatim>\<open>time.Duration\<close> (an \<^verbatim>\<open>int64\<close> of nanoseconds) by
  a 64-bit word read with \<^const>\<open>sint\<close>. An \<^verbatim>\<open>error\<close> is the text of its message.
\<close>

type_synonym error = string

subsection \<open>\<^verbatim>\<open>strconv.FormatInt(i, 10)\<close>, \<^verbatim>\<open>strconv.Itoa\<close> and \<^verbatim>\<open>%d\<close>\<close>

definition digit_char :: "nat \<Rightarrow> char" where
  "digit_char d = ''0123456789'' ! d"

function dec_digits :: "nat \<Rightarrow> string" where
  "dec_digits n = (if n < 10 then [digit_char n] else dec_digits (n div 10) @ [digit_char (n mod 10)])"
  by pat_completeness auto
termination
  by (relation "measure (\<lambda>n. n)") auto

declare dec_digits.simps [simp del]

definition FormatInt10 :: "int \<Rightarrow> string" where
  "FormatInt10 i = (if i < 0 then CHR ''-'' # dec_digits (nat (- i)) else dec_digits (nat i))"

text \<open>\<^verbatim>\<open>Duration.Milliseconds\<close>: the nanoseconds divided by \<open>10\<^sup>6\<close>, truncating
  towards zero as Go's integer division does.\<close>

definition Milliseconds :: "64 word \<Rightarrow> int" where
  "Milliseconds d = sint d sdiv 1000000"

section \<open>The DNS library's data, as \<^verbatim>\<open>pkg/resolvers/utils.go\<close> uses it\<close>

text \<open>
  \<^verbatim>\<open>pkg/resolvers/utils.go\<close> works on the types of the DNS library
  \<^verbatim>\<open>github.com/miekg/dns\<close>, which is no part of the repository. Its structs are
  modelled with the fields the library declares. A resource record is a header and a
  payload; the tag of the payload is the Go type of the record, which is what a Go type
  switch inspects (not the numeric \<^verbatim>\<open>Rrtype\<close> of the header). \<open>RR_Other\<close> stands for
  every record type that \<^verbatim>\<open>parseMessage\<close> does not name.
\<close>

record RR_Header =
  Name :: string
  Rrtype :: "16 word"
  Class :: "16 word"
  Ttl :: "32 word"
  Rdlength :: "16 word"

type_synonym IP = "8 word list"

datatype RData =
    RR_A IP
  | RR_AAAA IP
  | RR_CNAME string
  | RR_CAA "8 word" string string
  | RR_HINFO string string
  | RR_PTR string
  | RR_SRV "16 word" "16 word" "16 word" string
  | RR_TXT "string list"
  | RR_NS string
  | RR_MX "16 word" string
  | RR_SOA string string "32 word" "32 word" "32 word" "32 word" "32 word"
  | RR_NAPTR "16 word" "16 word" string string string string
  | RR_Other string

record RR =
  Hdr :: RR_Header
  Data :: RData

record Question =
  Name_q :: string
  Qtype :: "16 word"
  Qclass :: "16 word"

record Msg =
  Id_msg :: "16 word"
  Response :: bool
  Opcode :: int
  Authoritative :: bool
  Truncated :: bool
  RecursionDesired :: bool
  RecursionAvailable :: bool
  Zero :: bool
  AuthenticatedData :: bool
  CheckingDisabled :: bool
  Rcode :: int
  Compress :: bool
  Question :: "Question list"
  Answer :: "RR list"
  Ns :: "RR list"
  Extra :: "RR list"

text \<open>The zero value \<^verbatim>\<open>dns.Msg{}\<close>.\<close>

definition Msg_zero :: Msg where
  "Msg_zero = \<lparr>Id_msg = 0, Response = False, Opcode = 0, Authoritative = False,
     Truncated = False, RecursionDesired = False, RecursionAvailable = False, Zero = False,
     AuthenticatedData = False, CheckingDisabled = False, Rcode = 0, Compress = False,
     Question = [], Answer = [], Ns = [], Extra = []\<rparr>"

text \<open>
  The library functions that \<^verbatim>\<open>utils.go\<close> calls are parameters of the model,
  collected in two records. The first holds the functions on names, \<^verbatim>\<open>dns.IsFqdn\<close>
  and \<^verbatim>\<open>dns.CountLabel\<close>; the second the renderings
  \<^verbatim>\<open>dns.Class(c).String()\<close>, \<^verbatim>\<open>dns.Type(t).String()\<close>, the table
  \<^verbatim>\<open>dns.RcodeToString\<close>, \<^verbatim>\<open>net.IP.String()\<close> and a record's own \<^verbatim>\<open>String()\<close>.
  The theorems below hold for every value of these records, so for the library whatever
  its version; \<open>miekg\<close> further down is an instance of the first one, used to run
  examples.
\<close>

record dnslib =
  IsFqdn :: "string \<Rightarrow> bool"
  CountLabel :: "string \<Rightarrow> int"

record textlib =
  ClassString :: "16 word \<Rightarrow> string"
  TypeString :: "16 word \<Rightarrow> string"
  RcodeToString :: "int \<rightharpoonup> string"
  IPString :: "IP \<Rightarrow> string"
  RRString :: "RR \<Rightarrow> string"

text \<open>\<^verbatim>\<open>dns.Fqdn\<close>: \<^verbatim>\<open>if IsFqdn(s) { return s }; return s + "."\<close>.\<close>

definition Fqdn :: "dnslib \<Rightarrow> string \<Rightarrow> string" where
  "Fqdn L s = (if IsFqdn L s then s else s @ ''.'')"

text \<open>Reading a Go map of strings at a key: the zero value \<^verbatim>\<open>""\<close> when the key is
  absent.\<close>

definition map_index :: "('k \<rightharpoonup> string) \<Rightarrow> 'k \<Rightarrow> string" where
  "map_index m k = (case m k of None \<Rightarrow> [] | Some v \<Rightarrow> v)"

section \<open>\<^verbatim>\<open>pkg/resolvers/utils.go\<close>\<close>

subsection \<open>\<^verbatim>\<open>constructPossibleQuestions\<close>\<close>

text \<open>The loop \<^verbatim>\<open>for _, s := range searchList { names = append(names, dns.Fqdn(name+s)) }\<close>.\<close>

fun search_loop :: "dnslib \<Rightarrow> string \<Rightarrow> string list \<Rightarrow> string list \<Rightarrow> string list" where
  "search_loop L name [] names = names"
| "search_loop L name (s # searchList) names =
     search_loop L name searchList (names @ [Fqdn L (name @ s)])"

definition constructPossibleQuestions :: "dnslib \<Rightarrow> string \<Rightarrow> int \<Rightarrow> string list \<Rightarrow> string list" where
  "constructPossibleQuestions L name ndots searchList =
     (if IsFqdn L name then [name]
      else
        let hasNdots = CountLabel L name > ndots;
            name = Fqdn L name;
            names = [];
            names = (if hasNdots then names @ [name] else names);
            names = search_loop L name searchList names;
            names = (if \<not> hasNdots then names @ [name] else names)
        in names)"

subsection \<open>\<^verbatim>\<open>prepareMessages\<close>\<close>

text \<open>
  \<^verbatim>\<open>dns.Id()\<close> returns a random \<^verbatim>\<open>uint16\<close>. The outcomes of the random source are
  a parameter: \<open>draws k\<close> is what the \<open>k\<close>-th call returns. The state threaded through
  the loop is the number of calls made so far.
\<close>

definition dns_Id :: "(nat \<Rightarrow> 16 word) \<Rightarrow> nat \<Rightarrow> 16 word \<times> nat" where
  "dns_Id draws k = (draws k, Suc k)"

fun messages_loop ::
  "(nat \<Rightarrow> 16 word) \<Rightarrow> Question \<Rightarrow> string list \<Rightarrow> Msg list \<times> nat \<Rightarrow> Msg list \<times> nat" where
  "messages_loop draws q [] (messages, k) = (messages, k)"
| "messages_loop draws q (qName # possibleQNames) (messages, k) =
     (let msg = Msg_zero;
          (i, k) = dns_Id draws k;
          msg = msg\<lparr>Id_msg := i\<rparr>;
          msg = msg\<lparr>RecursionDesired := True\<rparr>;
          msg = msg\<lparr>Question := [\<lparr>Name_q = qName, Qtype = Qtype q, Qclass = Qclass q\<rparr>]\<rparr>
      in messages_loop draws q possibleQNames (messages @ [msg], k))"

definition prepareMessages ::
  "dnslib \<Rightarrow> (nat \<Rightarrow> 16 word) \<Rightarrow> nat \<Rightarrow> Question \<Rightarrow> int \<Rightarrow> string list \<Rightarrow> Msg list \<times> nat" where
  "prepareMessages L draws k q ndots searchList =
     (let possibleQNames = constructPossibleQuestions L (Name_q q) ndots searchList;
          messages = []
      in messages_loop draws q possibleQNames (messages, k))"

subsection \<open>\<^verbatim>\<open>parseMessage\<close>\<close>

text \<open>
  Modelled from the spec: the declarations of the structs \<^verbatim>\<open>Answer\<close>, \<^verbatim>\<open>Authority\<close>
  and \<^verbatim>\<open>Response\<close>, which are in another file of the package. The fields are those
  of the data model of the specification (an answer has name, type, ttl, class, address,
  rtt and nameserver; an authority has mname and status instead of the address; a result
  has the answers and the authorities), under the names that the struct literals of
  \<^verbatim>\<open>parseMessage\<close> give them. All of them are strings.
\<close>

record Answer =
  Name_ans :: string
  Type_ans :: string
  TTL_ans :: string
  Class_ans :: string
  Address_ans :: string
  RTT_ans :: string
  Nameserver_ans :: string

record Authority =
  Name_auth :: string
  Type_auth :: string
  TTL_auth :: string
  Class_auth :: string
  MName :: string
  Nameserver_auth :: string
  RTT_auth :: string
  Status :: string

record Response =
  Answers :: "Answer list"
  Authorities :: "Authority list"

text \<open>The body of the loop over \<^verbatim>\<open>msg.Ns\<close>: \<open>None\<close> is \<^verbatim>\<open>continue\<close>.\<close>

definition authority_of :: "textlib \<Rightarrow> Msg \<Rightarrow> string \<Rightarrow> string \<Rightarrow> RR \<Rightarrow> Authority option" where
  "authority_of L msg timeTaken server ns =
     (case Data ns of
        RR_SOA soaNs soaMbox soaSerial soaRefresh soaRetry soaExpire soaMinttl \<Rightarrow>
          let mname = soaNs @ '' '' @ soaMbox @
                '' '' @ FormatInt10 (uint soaSerial) @
                '' '' @ FormatInt10 (uint soaRefresh) @
                '' '' @ FormatInt10 (uint soaRetry) @
                '' '' @ FormatInt10 (uint soaExpire) @
                '' '' @ FormatInt10 (uint soaMinttl);
              h = Hdr ns;
              name = Name h;
              qclass = ClassString L (Class h);
              ttl = FormatInt10 (uint (Ttl h)) @ ''s'';
              qtype = TypeString L (Rrtype h)
          in Some \<lparr>Name_auth = name, Type_auth = qtype, TTL_auth = ttl, Class_auth = qclass,
                    MName = mname, Nameserver_auth = server, RTT_auth = timeTaken,
                    Status = map_index (RcodeToString L) (Rcode msg)\<rparr>
      | _ \<Rightarrow> None)"

fun authorities_loop ::
  "textlib \<Rightarrow> Msg \<Rightarrow> string \<Rightarrow> string \<Rightarrow> RR list \<Rightarrow> Response \<Rightarrow> Response" where
  "authorities_loop L msg timeTaken server [] resp = resp"
| "authorities_loop L msg timeTaken server (ns # rest) resp =
     (case authority_of L msg timeTaken server ns of
        None \<Rightarrow> authorities_loop L msg timeTaken server rest resp
      | Some auth \<Rightarrow>
          authorities_loop L msg timeTaken server rest
            (resp\<lparr>Authorities := Authorities resp @ [auth]\<rparr>))"

text \<open>The type switch of the loop over \<^verbatim>\<open>msg.Answer\<close>.\<close>

definition address_of :: "textlib \<Rightarrow> RR \<Rightarrow> string" where
  "address_of L a =
     (case Data a of
        RR_A ip \<Rightarrow> IPString L ip
      | RR_AAAA ip \<Rightarrow> IPString L ip
      | RR_CNAME target \<Rightarrow> target
      | RR_CAA flag tag val \<Rightarrow> tag @ '' '' @ val
      | RR_HINFO cpu os \<Rightarrow> cpu @ '' '' @ os
      | RR_PTR ptr \<Rightarrow> ptr
      | RR_SRV priority weight port target \<Rightarrow>
          FormatInt10 (uint priority) @ '' '' @
          FormatInt10 (uint weight) @ '' '' @
          target @ '':'' @ FormatInt10 (uint port)
      | RR_TXT txt \<Rightarrow> RRString L a
      | RR_NS nsname \<Rightarrow> nsname
      | RR_MX preference mx \<Rightarrow> FormatInt10 (uint preference) @ '' '' @ mx
      | RR_SOA soaNs soaMbox soaSerial soaRefresh soaRetry soaExpire soaMinttl \<Rightarrow> RRString L a
      | RR_NAPTR ord preference flags service regexp replacement \<Rightarrow> RRString L a
      | RR_Other rdata \<Rightarrow> [])"

definition answer_of :: "textlib \<Rightarrow> string \<Rightarrow> string \<Rightarrow> RR \<Rightarrow> Answer" where
  "answer_of L timeTaken server a =
     (let addr = address_of L a;
          h = Hdr a;
          name = Name h;
          qclass = ClassString L (Class h);
          ttl = FormatInt10 (uint (Ttl h)) @ ''s'';
          qtype = TypeString L (Rrtype h)
      in \<lparr>Name_ans = name, Type_ans = qtype, TTL_ans = ttl, Class_ans = qclass,
           Address_ans = addr, RTT_ans = timeTaken, Nameserver_ans = server\<rparr>)"

fun answers_loop :: "textlib \<Rightarrow> string \<Rightarrow> string \<Rightarrow> RR list \<Rightarrow> Response \<Rightarrow> Response" where
  "answers_loop L timeTaken server [] resp = resp"
| "answers_loop L timeTaken server (a # rest) resp =
     answers_loop L timeTaken server rest
       (resp\<lparr>Answers := Answers resp @ [answer_of L timeTaken server a]\<rparr>)"

definition parseMessage :: "textlib \<Rightarrow> Msg \<Rightarrow> 64 word \<Rightarrow> string \<Rightarrow> Response" where
  "parseMessage L msg rtt server =
     (let resp = \<lparr>Answers = [], Authorities = []\<rparr>;
          timeTaken = FormatInt10 (Milliseconds rtt) @ ''ms'';
          resp = authorities_loop L msg timeTaken server (Ns msg) resp;
          resp = answers_loop L timeTaken server (Answer msg) resp
      in resp)"

section \<open>An instance of the name functions of the DNS library\<close>

text \<open>
  \<^verbatim>\<open>dns.IsFqdn\<close> and \<^verbatim>\<open>dns.CountLabel\<close> as the library defines them, read byte by
  byte. A trailing dot ends a fully qualified name unless a backslash escapes it, that
  is, unless an odd number of backslashes stands before it; a label ends at a dot that
  is not escaped. The library finds the last byte other than a backslash with a scan
  over characters, so the instance is the library on names where that byte is ASCII.
\<close>

definition backslash :: char where
  "backslash = CHR 0x5C"

definition escapes_before :: "string \<Rightarrow> nat" where
  "escapes_before s = length (takeWhile (\<lambda>c. c = backslash) (rev s))"

definition miekg_IsFqdn :: "string \<Rightarrow> bool" where
  "miekg_IsFqdn s =
     (if s = [] \<or> last s \<noteq> CHR ''.'' then False
      else
        let s = butlast s
        in if s = [] \<or> last s \<noteq> backslash then True
           else even (escapes_before s))"

function NextLabel_from :: "string \<Rightarrow> nat \<Rightarrow> nat \<times> bool" where
  "NextLabel_from s i =
     (if i + 1 < length s then
        (if s ! i \<noteq> CHR ''.'' then NextLabel_from s (i + 1)
         else if odd (escapes_before (take i s)) then NextLabel_from s (i + 1)
         else (i + 1, False))
      else (i + 1, True))"
  by pat_completeness auto
termination
  by (relation "measure (\<lambda>(s, i). length s - i)") auto

declare NextLabel_from.simps [simp del]

definition NextLabel :: "string \<Rightarrow> nat \<Rightarrow> nat \<times> bool" where
  "NextLabel s offset = (if s = [] then (0, True) else NextLabel_from s offset)"

lemma NextLabel_from_more:
  "NextLabel_from s i = (j, False) \<Longrightarrow> i < j \<and> j < length s"
proof (induction s i rule: NextLabel_from.induct)
  case (1 s i)
  show ?case
  proof (cases "i + 1 < length s")
    case False
    with "1.prems" show ?thesis
      by (simp add: NextLabel_from.simps [of s i])
  next
    case True
    show ?thesis
    proof (cases "s ! i \<noteq> CHR ''.'' \<or> odd (escapes_before (take i s))")
      case True
      with \<open>i + 1 < length s\<close> "1.prems" have "NextLabel_from s (i + 1) = (j, False)"
        by (auto simp add: NextLabel_from.simps [of s i] split: if_splits)
      with \<open>i + 1 < length s\<close> True "1.IH" have "i + 1 < j \<and> j < length s"
        by blast
      then show ?thesis by simp
    next
      case False
      with \<open>i + 1 < length s\<close> "1.prems" show ?thesis
        by (auto simp add: NextLabel_from.simps [of s i])
    qed
  qed
qed

lemma NextLabel_more:
  "NextLabel s off = (j, False) \<Longrightarrow> length s - j < length s - off"
  using NextLabel_from_more [of s off j]
  by (auto simp add: NextLabel_def split: if_splits)

function CountLabel_loop :: "string \<Rightarrow> nat \<Rightarrow> int \<Rightarrow> int" where
  "CountLabel_loop s off labels =
     (case NextLabel s off of
        (off', end) \<Rightarrow>
          let labels = labels + 1
          in if end then labels else CountLabel_loop s off' labels)"
  by pat_completeness auto
termination
  by (relation "measure (\<lambda>(s, off, labels). length s - off)") (auto dest: NextLabel_more [OF sym])

declare CountLabel_loop.simps [simp del]

definition miekg_CountLabel :: "string \<Rightarrow> int" where
  "miekg_CountLabel s = (if s = ''.'' then 0 else CountLabel_loop s 0 0)"

definition miekg :: dnslib where
  "miekg = \<lparr>IsFqdn = miekg_IsFqdn, CountLabel = miekg_CountLabel\<rparr>"

section \<open>The Go library's data, as \<^verbatim>\<open>cmd/doggo/nameservers.go\<close> uses it\<close>

subsection \<open>\<^verbatim>\<open>net.JoinHostPort\<close>\<close>

text \<open>\<^verbatim>\<open>if IndexByte(host, ':') >= 0 { return "[" + host + "]:" + port };
  return host + ":" + port\<close>.\<close>

definition JoinHostPort :: "string \<Rightarrow> string \<Rightarrow> string" where
  "JoinHostPort host port =
     (if CHR '':'' \<in> set host then ''['' @ host @ '']:'' @ port else host @ '':'' @ port)"

subsection \<open>\<^verbatim>\<open>url.URL\<close> and its methods \<^verbatim>\<open>Hostname\<close>, \<^verbatim>\<open>Port\<close> and \<^verbatim>\<open>String\<close>\<close>

record Userinfo =
  username_ui :: string
  password_ui :: string
  passwordSet :: bool

record URL =
  Scheme :: string
  Opaque :: string
  User :: "Userinfo option"
  Host :: string
  Path :: string
  RawPath :: string
  ForceQuery :: bool
  RawQuery :: string
  Fragment :: string
  RawFragment :: string

definition byte :: "char \<Rightarrow> nat" where
  "byte c = of_char c"

definition is_digit :: "char \<Rightarrow> bool" where
  "is_digit c = (byte CHR ''0'' \<le> byte c \<and> byte c \<le> byte CHR ''9'')"

definition is_lower :: "char \<Rightarrow> bool" where
  "is_lower c = (byte CHR ''a'' \<le> byte c \<and> byte c \<le> byte CHR ''z'')"

definition is_upper :: "char \<Rightarrow> bool" where
  "is_upper c = (byte CHR ''A'' \<le> byte c \<and> byte c \<le> byte CHR ''Z'')"

text \<open>\<^verbatim>\<open>strings.IndexByte\<close> and \<^verbatim>\<open>strings.LastIndexByte\<close>: \<open>None\<close> is \<open>-1\<close>.\<close>

fun IndexByte :: "string \<Rightarrow> char \<Rightarrow> nat option" where
  "IndexByte [] c = None"
| "IndexByte (x # xs) c = (if x = c then Some 0 else map_option Suc (IndexByte xs c))"

definition LastIndexByte :: "string \<Rightarrow> char \<Rightarrow> nat option" where
  "LastIndexByte s c =
     (case IndexByte (rev s) c of None \<Rightarrow> None | Some i \<Rightarrow> Some (length s - 1 - i))"

definition validOptionalPort :: "string \<Rightarrow> bool" where
  "validOptionalPort port =
     (case port of
        [] \<Rightarrow> True
      | c # ds \<Rightarrow> if c \<noteq> CHR '':'' then False else list_all is_digit ds)"

definition HasPrefix :: "string \<Rightarrow> string \<Rightarrow> bool" where
  "HasPrefix s pre = (take (length pre) s = pre)"

definition HasSuffix :: "string \<Rightarrow> string \<Rightarrow> bool" where
  "HasSuffix s suf = (length suf \<le> length s \<and> drop (length s - length suf) s = suf)"

definition splitHostPort :: "string \<Rightarrow> string \<times> string" where
  "splitHostPort hostport =
     (let host = hostport;
          port = [];
          (host, port) =
            (case LastIndexByte host CHR '':'' of
               None \<Rightarrow> (host, port)
             | Some colon \<Rightarrow>
                 if validOptionalPort (drop colon host)
                 then (take colon host, drop (colon + 1) host)
                 else (host, port));
          host = (if HasPrefix host ''['' \<and> HasSuffix host '']''
                  then take (length host - 2) (drop 1 host) else host)
      in (host, port))"

definition Hostname :: "URL \<Rightarrow> string" where
  "Hostname u = fst (splitHostPort (Host u))"

definition Port :: "URL \<Rightarrow> string" where
  "Port u = snd (splitHostPort (Host u))"

datatype encoding =
    encodePath
  | encodePathSegment
  | encodeHost
  | encodeZone
  | encodeUserPassword
  | encodeQueryComponent
  | encodeFragment

definition shouldEscape :: "char \<Rightarrow> encoding \<Rightarrow> bool" where
  "shouldEscape c mode =
     (if is_lower c \<or> is_upper c \<or> is_digit c then False
      else if (mode = encodeHost \<or> mode = encodeZone) \<and> c \<in> set (''!$&'' @ [CHR 0x27] @ ''()*+,;=:[]<>'' @ [CHR 0x22])
        then False
      else if c \<in> set ''-_.~'' then False
      else if c \<in> set ''$&+,/:;=?@'' \<and> mode = encodePath then c = CHR ''?''
      else if c \<in> set ''$&+,/:;=?@'' \<and> mode = encodePathSegment then c \<in> set ''/;,?''
      else if c \<in> set ''$&+,/:;=?@'' \<and> mode = encodeUserPassword then c \<in> set ''@/?:''
      else if c \<in> set ''$&+,/:;=?@'' \<and> mode = encodeQueryComponent then True
      else if c \<in> set ''$&+,/:;=?@'' \<and> mode = encodeFragment then False
      else if mode = encodeFragment \<and> c \<in> set ''!()*'' then False
      else True)"

definition upperhex :: "nat \<Rightarrow> char" where
  "upperhex d = ''0123456789ABCDEF'' ! d"

fun escape :: "string \<Rightarrow> encoding \<Rightarrow> string" where
  "escape [] mode = []"
| "escape (c # s) mode =
     (if shouldEscape c mode then
        (if c = CHR '' '' \<and> mode = encodeQueryComponent then CHR ''+'' # escape s mode
         else CHR ''%'' # upperhex (byte c div 16) # upperhex (byte c mod 16) # escape s mode)
      else c # escape s mode)"

definition ishex :: "char \<Rightarrow> bool" where
  "ishex c = (is_digit c \<or> (byte CHR ''a'' \<le> byte c \<and> byte c \<le> byte CHR ''f'')
                \<or> (byte CHR ''A'' \<le> byte c \<and> byte c \<le> byte CHR ''F''))"

definition unhex :: "char \<Rightarrow> nat" where
  "unhex c =
     (if is_digit c then byte c - byte CHR ''0''
      else if byte CHR ''a'' \<le> byte c \<and> byte c \<le> byte CHR ''f'' then byte c - byte CHR ''a'' + 10
      else if byte CHR ''A'' \<le> byte c \<and> byte c \<le> byte CHR ''F'' then byte c - byte CHR ''A'' + 10
      else 0)"

datatype url_error =
    InvalidControlCharacter
  | MissingProtocolScheme
  | FirstPathSegmentColon
  | MissingBracket
  | InvalidPort string
  | InvalidUserinfo
  | EscapeError string
  | InvalidHostError string

text \<open>The first loop of \<^verbatim>\<open>unescape\<close> checks the escapes, the second decodes them.\<close>

fun unescape_check :: "string \<Rightarrow> encoding \<Rightarrow> url_error option" where
  "unescape_check [] mode = None"
| "unescape_check [c] mode =
     (if c = CHR ''%'' then Some (EscapeError [c])
      else if c = CHR ''+'' then None
      else if (mode = encodeHost \<or> mode = encodeZone) \<and> byte c < 128 \<and> shouldEscape c encodeHost
        then Some (InvalidHostError [c])
      else None)"
| "unescape_check [c, d] mode =
     (if c = CHR ''%'' then Some (EscapeError [c, d])
      else if c = CHR ''+'' then unescape_check [d] mode
      else if (mode = encodeHost \<or> mode = encodeZone) \<and> byte c < 128 \<and> shouldEscape c encodeHost
        then Some (InvalidHostError [c])
      else unescape_check [d] mode)"
| "unescape_check (c # d # e # s) mode =
     (if c = CHR ''%'' then
        (if \<not> ishex d \<or> \<not> ishex e then Some (EscapeError [c, d, e])
         else if mode = encodeHost \<and> unhex d < 8 \<and> [c, d, e] \<noteq> ''%25''
           then Some (EscapeError [c, d, e])
         else if mode = encodeZone \<and> [c, d, e] \<noteq> ''%25''
                 \<and> char_of (unhex d * 16 + unhex e) \<noteq> CHR '' ''
                 \<and> shouldEscape (char_of (unhex d * 16 + unhex e)) encodeHost
           then Some (EscapeError [c, d, e])
         else unescape_check s mode)
      else if c = CHR ''+'' then unescape_check (d # e # s) mode
      else if (mode = encodeHost \<or> mode = encodeZone) \<and> byte c < 128 \<and> shouldEscape c encodeHost
        then Some (InvalidHostError [c])
      else unescape_check (d # e # s) mode)"

fun unescape_bytes :: "string \<Rightarrow> encoding \<Rightarrow> string" where
  "unescape_bytes (c # d # e # s) mode =
     (if c = CHR ''%'' then char_of (unhex d * 16 + unhex e) # unescape_bytes s mode
      else if c = CHR ''+'' then
        (if mode = encodeQueryComponent then CHR '' '' else CHR ''+'') # unescape_bytes (d # e # s) mode
      else c # unescape_bytes (d # e # s) mode)"
| "unescape_bytes (c # s) mode =
     (if c = CHR ''+'' then
        (if mode = encodeQueryComponent then CHR '' '' else CHR ''+'') # unescape_bytes s mode
      else c # unescape_bytes s mode)"
| "unescape_bytes [] mode = []"

definition unescape :: "string \<Rightarrow> encoding \<Rightarrow> url_error + string" where
  "unescape s mode =
     (case unescape_check s mode of
        Some err \<Rightarrow> Inl err
      | None \<Rightarrow> Inr (unescape_bytes s mode))"

definition validEncoded :: "string \<Rightarrow> encoding \<Rightarrow> bool" where
  "validEncoded s mode =
     list_all (\<lambda>c. c \<in> set (''!$&'' @ [CHR 0x27] @ ''()*+,;=:@[]%'') \<or> \<not> shouldEscape c mode) s"

definition EscapedPath :: "URL \<Rightarrow> string" where
  "EscapedPath u =
     (if RawPath u \<noteq> [] \<and> validEncoded (RawPath u) encodePath
         \<and> unescape (RawPath u) encodePath = Inr (Path u)
      then RawPath u
      else if Path u = ''*'' then ''*''
      else escape (Path u) encodePath)"

definition EscapedFragment :: "URL \<Rightarrow> string" where
  "EscapedFragment u =
     (if RawFragment u \<noteq> [] \<and> validEncoded (RawFragment u) encodeFragment
         \<and> unescape (RawFragment u) encodeFragment = Inr (Fragment u)
      then RawFragment u
      else escape (Fragment u) encodeFragment)"

definition Userinfo_String :: "Userinfo \<Rightarrow> string" where
  "Userinfo_String ui =
     (let s = escape (username_ui ui) encodeUserPassword
      in if passwordSet ui then s @ '':'' @ escape (password_ui ui) encodeUserPassword else s)"

text \<open>\<^verbatim>\<open>URL.String\<close> writes into a buffer, \<open>buf\<close> here.\<close>

definition URL_String :: "URL \<Rightarrow> string" where
  "URL_String u =
     (let buf = [];
          buf = (if Scheme u \<noteq> [] then buf @ Scheme u @ '':'' else buf);
          buf =
            (if Opaque u \<noteq> [] then buf @ Opaque u
             else
               let buf =
                     (if Scheme u \<noteq> [] \<or> Host u \<noteq> [] \<or> User u \<noteq> None then
                        let buf = (if Host u \<noteq> [] \<or> Path u \<noteq> [] \<or> User u \<noteq> None
                                   then buf @ ''//'' else buf);
                            buf = (case User u of
                                     None \<Rightarrow> buf
                                   | Some ui \<Rightarrow> buf @ Userinfo_String ui @ ''@'');
                            buf = (if Host u \<noteq> [] then buf @ escape (Host u) encodeHost else buf)
                        in buf
                      else buf);
                   path = EscapedPath u;
                   buf = (if path \<noteq> [] \<and> hd path \<noteq> CHR ''/'' \<and> Host u \<noteq> []
                          then buf @ ''/'' else buf);
                   buf = (if buf = [] then
                            (case IndexByte path CHR '':'' of
                               None \<Rightarrow> buf
                             | Some i \<Rightarrow> if IndexByte (take i path) CHR ''/'' = None
                                          then buf @ ''./'' else buf)
                          else buf)
               in buf @ path);
          buf = (if ForceQuery u \<or> RawQuery u \<noteq> [] then buf @ ''?'' @ RawQuery u else buf);
          buf = (if Fragment u \<noteq> [] then buf @ ''#'' @ EscapedFragment u else buf)
      in buf)"

subsection \<open>An instance of \<^verbatim>\<open>url.Parse\<close>\<close>

text \<open>
  \<^verbatim>\<open>url.Parse\<close> is a parameter of the model of \<^verbatim>\<open>nameservers.go\<close> below. \<open>go_Parse\<close>
  is the parser of Go's \<^verbatim>\<open>net/url\<close> (as of Go 1.15, the release the repository was
  written with), byte by byte, to run the examples. The error carries the parser's
  reason without the text it is wrapped in; \<^verbatim>\<open>loadNameservers\<close> only tests it for
  \<^verbatim>\<open>nil\<close>.
\<close>

definition URL_zero :: URL where
  "URL_zero = \<lparr>Scheme = [], Opaque = [], User = None, Host = [], Path = [], RawPath = [],
     ForceQuery = False, RawQuery = [], Fragment = [], RawFragment = []\<rparr>"

definition stringContainsCTLByte :: "string \<Rightarrow> bool" where
  "stringContainsCTLByte s = list_ex (\<lambda>b. byte b < 32 \<or> byte b = 127) s"

fun getscheme_loop :: "string \<Rightarrow> nat \<Rightarrow> string \<Rightarrow> url_error + string \<times> string" where
  "getscheme_loop rawurl i [] = Inr ([], rawurl)"
| "getscheme_loop rawurl i (c # cs) =
     (if is_lower c \<or> is_upper c then getscheme_loop rawurl (i + 1) cs
      else if is_digit c \<or> c = CHR ''+'' \<or> c = CHR ''-'' \<or> c = CHR ''.'' then
        (if i = 0 then Inr ([], rawurl) else getscheme_loop rawurl (i + 1) cs)
      else if c = CHR '':'' then
        (if i = 0 then Inl MissingProtocolScheme else Inr (take i rawurl, drop (i + 1) rawurl))
      else Inr ([], rawurl))"

definition getscheme :: "string \<Rightarrow> url_error + string \<times> string" where
  "getscheme rawurl = getscheme_loop rawurl 0 rawurl"

text \<open>\<^verbatim>\<open>strings.ToLower\<close> on the bytes a scheme can have, which are ASCII.\<close>

definition ToLower :: "string \<Rightarrow> string" where
  "ToLower s = map (\<lambda>c. if is_upper c then char_of (byte c + 32) else c) s"

definition split :: "string \<Rightarrow> char \<Rightarrow> bool \<Rightarrow> string \<times> string" where
  "split s sep cutc =
     (case IndexByte s sep of
        None \<Rightarrow> (s, [])
      | Some i \<Rightarrow> if cutc then (take i s, drop (i + 1) s) else (take i s, drop i s))"

text \<open>\<^verbatim>\<open>strings.Index\<close>: \<open>None\<close> is \<open>-1\<close>.\<close>

fun Index :: "string \<Rightarrow> string \<Rightarrow> nat option" where
  "Index [] sub = (if sub = [] then Some 0 else None)"
| "Index (c # s) sub =
     (if HasPrefix (c # s) sub then Some 0 else map_option Suc (Index s sub))"

definition parseHost :: "string \<Rightarrow> url_error + string" where
  "parseHost host =
     (if HasPrefix host ''['' then
        (case LastIndexByte host CHR '']'' of
           None \<Rightarrow> Inl MissingBracket
         | Some i \<Rightarrow>
             let colonPort = drop (i + 1) host
             in if \<not> validOptionalPort colonPort then Inl (InvalidPort colonPort)
                else
                  (case Index (take i host) ''%25'' of
                     Some zone \<Rightarrow>
                       (case unescape (take zone host) encodeHost of
                          Inl err \<Rightarrow> Inl err
                        | Inr host1 \<Rightarrow>
                            (case unescape (drop zone (take i host)) encodeZone of
                               Inl err \<Rightarrow> Inl err
                             | Inr host2 \<Rightarrow>
                                 (case unescape (drop i host) encodeHost of
                                    Inl err \<Rightarrow> Inl err
                                  | Inr host3 \<Rightarrow> Inr (host1 @ host2 @ host3))))
                   | None \<Rightarrow> unescape host encodeHost))
      else
        (case LastIndexByte host CHR '':'' of
           Some i \<Rightarrow>
             let colonPort = drop i host
             in if \<not> validOptionalPort colonPort then Inl (InvalidPort colonPort)
                else unescape host encodeHost
         | None \<Rightarrow> unescape host encodeHost))"

definition validUserinfo :: "string \<Rightarrow> bool" where
  "validUserinfo s =
     list_all (\<lambda>r. is_upper r \<or> is_lower r \<or> is_digit r
                  \<or> r \<in> set (''-._:~!$&'' @ [CHR 0x27] @ ''()*+,;=%@'')) s"

definition parseAuthority :: "string \<Rightarrow> url_error + Userinfo option \<times> string" where
  "parseAuthority authority =
     (let i = LastIndexByte authority CHR ''@''
      in case (case i of None \<Rightarrow> parseHost authority
                       | Some i \<Rightarrow> parseHost (drop (i + 1) authority)) of
           Inl err \<Rightarrow> Inl err
         | Inr host \<Rightarrow>
             (case i of
                None \<Rightarrow> Inr (None, host)
              | Some i \<Rightarrow>
                  let userinfo = take i authority
                  in if \<not> validUserinfo userinfo then Inl InvalidUserinfo
                     else if CHR '':'' \<notin> set userinfo then
                       (case unescape userinfo encodeUserPassword of
                          Inl err \<Rightarrow> Inl err
                        | Inr userinfo \<Rightarrow>
                            Inr (Some \<lparr>username_ui = userinfo, password_ui = [], passwordSet = False\<rparr>,
                                 host))
                     else
                       (case split userinfo CHR '':'' True of
                          (username, password) \<Rightarrow>
                            (case unescape username encodeUserPassword of
                               Inl err \<Rightarrow> Inl err
                             | Inr username \<Rightarrow>
                                 (case unescape password encodeUserPassword of
                                    Inl err \<Rightarrow> Inl err
                                  | Inr password \<Rightarrow>
                                      Inr (Some \<lparr>username_ui = username, password_ui = password,
                                                  passwordSet = True\<rparr>, host))))))"

definition setPath :: "URL \<Rightarrow> string \<Rightarrow> url_error + URL" where
  "setPath u p =
     (case unescape p encodePath of
        Inl err \<Rightarrow> Inl err
      | Inr path \<Rightarrow>
          let u = u\<lparr>Path := path\<rparr>
          in if p = escape path encodePath then Inr (u\<lparr>RawPath := []\<rparr>)
             else Inr (u\<lparr>RawPath := p\<rparr>))"

definition setFragment :: "URL \<Rightarrow> string \<Rightarrow> url_error + URL" where
  "setFragment u f =
     (case unescape f encodeFragment of
        Inl err \<Rightarrow> Inl err
      | Inr frag \<Rightarrow>
          let u = u\<lparr>Fragment := frag\<rparr>
          in if f = escape frag encodeFragment then Inr (u\<lparr>RawFragment := []\<rparr>)
             else Inr (u\<lparr>RawFragment := f\<rparr>))"

text \<open>\<^verbatim>\<open>parse(rawurl, viaRequest)\<close> with \<^verbatim>\<open>viaRequest = false\<close>, as \<^verbatim>\<open>Parse\<close> calls it.\<close>

definition parse :: "string \<Rightarrow> url_error + URL" where
  "parse rawurl =
     (if stringContainsCTLByte rawurl then Inl InvalidControlCharacter
      else
        let url = URL_zero
        in if rawurl = ''*'' then Inr (url\<lparr>Path := ''*''\<rparr>)
           else
             (case getscheme rawurl of
                Inl err \<Rightarrow> Inl err
              | Inr (scheme, rest) \<Rightarrow>
                  let url = url\<lparr>Scheme := ToLower scheme\<rparr>;
                      (url, rest) =
                        (if HasSuffix rest ''?'' \<and> count_list rest CHR ''?'' = 1
                         then (url\<lparr>ForceQuery := True\<rparr>, take (length rest - 1) rest)
                         else (case split rest CHR ''?'' True of
                                 (rest, query) \<Rightarrow> (url\<lparr>RawQuery := query\<rparr>, rest)))
                  in if \<not> HasPrefix rest ''/'' \<and> Scheme url \<noteq> [] then Inr (url\<lparr>Opaque := rest\<rparr>)
                     else if \<not> HasPrefix rest ''/''
                             \<and> (case IndexByte rest CHR '':'' of
                                   None \<Rightarrow> False
                                 | Some colon \<Rightarrow>
                                     (case IndexByte rest CHR ''/'' of
                                        None \<Rightarrow> True
                                      | Some slash \<Rightarrow> colon < slash))
                       then Inl FirstPathSegmentColon
                     else if (Scheme url \<noteq> [] \<or> \<not> HasPrefix rest ''///'') \<and> HasPrefix rest ''//''
                       then
                         (case split (drop 2 rest) CHR ''/'' False of
                            (authority, rest) \<Rightarrow>
                              (case parseAuthority authority of
                                 Inl err \<Rightarrow> Inl err
                               | Inr (user, host) \<Rightarrow> setPath (url\<lparr>User := user, Host := host\<rparr>) rest))
                     else setPath url rest))"

definition go_Parse :: "string \<Rightarrow> url_error + URL" where
  "go_Parse rawurl =
     (case split rawurl CHR ''#'' True of
        (u, frag) \<Rightarrow>
          (case parse u of
             Inl err \<Rightarrow> Inl err
           | Inr url \<Rightarrow> if frag = [] then Inr url else setFragment url frag))"

section \<open>\<^verbatim>\<open>cmd/doggo/nameservers.go\<close>\<close>

definition DefaultTLSPort :: string where "DefaultTLSPort = ''853''"
definition DefaultUDPPort :: string where "DefaultUDPPort = ''53''"
definition DefaultTCPPort :: string where "DefaultTCPPort = ''53''"
definition UDPResolver :: string where "UDPResolver = ''udp''"
definition DOHResolver :: string where "DOHResolver = ''doh''"
definition TCPResolver :: string where "TCPResolver = ''tcp''"
definition DOTResolver :: string where "DOTResolver = ''dot''"

text \<open>
  Modelled from the spec: the declarations of the structs \<^verbatim>\<open>Nameserver\<close>,
  \<^verbatim>\<open>QueryFlags\<close>, \<^verbatim>\<open>Hub\<close> and of the resolver options, which are in other files of
  the repository. An endpoint has a protocol type and an address; the flags of the user
  hold the nameserver strings, ndots and whether the search list is to be used; the
  options hold ndots and the search list; the hub holds the flags, the options and the
  endpoints. The fields have the names under which \<^verbatim>\<open>nameservers.go\<close> reads and
  writes them.
\<close>

record Nameserver =
  Address :: string
  Type :: string

record QueryFlags =
  Nameservers_qf :: "string list"
  Ndots_qf :: int
  UseSearchList :: bool

record Options =
  Ndots :: int
  SearchList :: "string list"

record Hub =
  QueryFlags :: QueryFlags
  ResolverOpts :: Options
  Nameservers :: "Nameserver list"

subsection \<open>\<^verbatim>\<open>initNameserver\<close>\<close>

text \<open>The function returns both values of the Go pair: the endpoint and the error
  (\<open>None\<close> is \<^verbatim>\<open>nil\<close>). \<open>Parse\<close> is \<^verbatim>\<open>url.Parse\<close>.\<close>

definition initNameserver :: "(string \<Rightarrow> 'e + URL) \<Rightarrow> string \<Rightarrow> Nameserver \<times> 'e option" where
  "initNameserver Parse n =
     (let ns = \<lparr>Address = JoinHostPort n DefaultUDPPort, Type = UDPResolver\<rparr>
      in case Parse n of
           Inl err \<Rightarrow> (ns, Some err)
         | Inr u \<Rightarrow>
             let ns = (if Scheme u = ''https''
                       then ns\<lparr>Type := DOHResolver, Address := URL_String u\<rparr>
                       else ns);
                 ns = (if Scheme u = ''tls'' then
                         (let ns = ns\<lparr>Type := DOTResolver\<rparr>
                          in if Port u = []
                             then ns\<lparr>Address := JoinHostPort (Hostname u) DefaultTLSPort\<rparr>
                             else ns\<lparr>Address := JoinHostPort (Hostname u) (Port u)\<rparr>)
                       else ns);
                 ns = (if Scheme u = ''tcp'' then
                         (let ns = ns\<lparr>Type := TCPResolver\<rparr>
                          in if Port u = []
                             then ns\<lparr>Address := JoinHostPort (Hostname u) DefaultTCPPort\<rparr>
                             else ns\<lparr>Address := JoinHostPort (Hostname u) (Port u)\<rparr>)
                       else ns);
                 ns = (if Scheme u = ''udp'' then
                         (let ns = ns\<lparr>Type := UDPResolver\<rparr>
                          in if Port u = []
                             then ns\<lparr>Address := JoinHostPort (Hostname u) DefaultUDPPort\<rparr>
                             else ns\<lparr>Address := JoinHostPort (Hostname u) (Port u)\<rparr>)
                       else ns)
             in (ns, None))"

subsection \<open>\<^verbatim>\<open>getDefaultServers\<close>\<close>

text \<open>
  \<^verbatim>\<open>config.GetDefaultServers()\<close>, in another package of the repository, reads the
  configuration of the operating system. What it returns is an input of the model: an
  error, or the addresses, ndots and the search list.
\<close>

type_synonym defaults = "error + string list \<times> int \<times> string list"

fun servers_loop :: "string list \<Rightarrow> Nameserver list \<Rightarrow> Nameserver list" where
  "servers_loop [] servers = servers"
| "servers_loop (s # dnsServers) servers =
     (let ns = \<lparr>Address = JoinHostPort s DefaultUDPPort, Type = UDPResolver\<rparr>
      in servers_loop dnsServers (servers @ [ns]))"

definition getDefaultServers :: "defaults \<Rightarrow> error + Nameserver list \<times> int \<times> string list" where
  "getDefaultServers config_GetDefaultServers =
     (case config_GetDefaultServers of
        Inl err \<Rightarrow> Inl err
      | Inr (dnsServers, ndots, search) \<Rightarrow>
          let servers = []
          in Inr (servers_loop dnsServers servers, ndots, search))"

subsection \<open>\<^verbatim>\<open>loadNameservers\<close>\<close>

text \<open>
  The method changes the hub it is called on and returns an error. The model returns
  the hub as the method leaves it, also when it returns an error, and the error
  (\<open>None\<close> is \<^verbatim>\<open>nil\<close>).
\<close>

fun nameservers_loop ::
  "(string \<Rightarrow> 'e + URL) \<Rightarrow> string list \<Rightarrow> Hub \<Rightarrow> Hub \<times> error option" where
  "nameservers_loop Parse [] hub = (hub, None)"
| "nameservers_loop Parse (srv # rest) hub =
     (case initNameserver Parse srv of
        (ns, Some err) \<Rightarrow> (hub, Some (''error parsing nameserver: '' @ srv))
      | (ns, None) \<Rightarrow>
          let hub = (if Address ns \<noteq> [] \<and> Type ns \<noteq> []
                     then hub\<lparr>Nameservers := Nameservers hub @ [ns]\<rparr>
                     else hub)
          in nameservers_loop Parse rest hub)"

definition loadNameservers ::
  "(string \<Rightarrow> 'e + URL) \<Rightarrow> defaults \<Rightarrow> Hub \<Rightarrow> Hub \<times> error option" where
  "loadNameservers Parse config_GetDefaultServers hub =
     (case nameservers_loop Parse (Nameservers_qf (QueryFlags hub)) hub of
        (hub, Some err) \<Rightarrow> (hub, Some err)
      | (hub, None) \<Rightarrow>
          if length (Nameservers hub) = 0 then
            (case getDefaultServers config_GetDefaultServers of
               Inl err \<Rightarrow> (hub, Some ''error fetching system default nameserver'')
             | Inr (ns, ndots, search) \<Rightarrow>
                 let hub = (if Ndots_qf (QueryFlags hub) = 0
                            then hub\<lparr>ResolverOpts := (ResolverOpts hub)\<lparr>Ndots := ndots\<rparr>\<rparr>
                            else hub);
                     hub = (if length search > 0 \<and> UseSearchList (QueryFlags hub)
                            then hub\<lparr>ResolverOpts := (ResolverOpts hub)\<lparr>SearchList := search\<rparr>\<rparr>
                            else hub);
                     hub = hub\<lparr>Nameservers := Nameservers hub @ ns\<rparr>
                 in (hub, None))
          else (hub, None))"

section \<open>Example inputs\<close>

text \<open>A response with the result code 3 (name error): an address record and a key record
  in the answer section, a name-server record and a start-of-authority record in the
  authority section.\<close>

definition example_soa :: RR where
  "example_soa = \<lparr>Hdr = \<lparr>Name = ''example.com.'', Rrtype = 6, Class = 1, Ttl = 3600, Rdlength = 0\<rparr>,
     Data = RR_SOA ''ns1.example.com.'' ''admin.example.com.'' 2020120101 7200 3600 1209600 300\<rparr>"

definition example_ns :: RR where
  "example_ns = \<lparr>Hdr = \<lparr>Name = ''example.com.'', Rrtype = 2, Class = 1, Ttl = 3600, Rdlength = 0\<rparr>,
     Data = RR_NS ''ns1.example.com.''\<rparr>"

definition example_a :: RR where
  "example_a = \<lparr>Hdr = \<lparr>Name = ''example.com.'', Rrtype = 1, Class = 1, Ttl = 300, Rdlength = 4\<rparr>,
     Data = RR_A [93, 184, 216, 34]\<rparr>"

definition example_other :: RR where
  "example_other = \<lparr>Hdr = \<lparr>Name = ''example.com.'', Rrtype = 48, Class = 1, Ttl = 60, Rdlength = 0\<rparr>,
     Data = RR_Other ''DNSKEY''\<rparr>"

definition example_msg :: Msg where
  "example_msg = Msg_zero\<lparr>Response := True, Rcode := 3, Answer := [example_a, example_other],
     Ns := [example_ns, example_soa]\<rparr>"

text \<open>A hub before \<^verbatim>\<open>loadNameservers\<close> runs: the flags as the user gave them, the
  options holding the same ndots and no search list, and no endpoint.\<close>

definition hub_of :: "string list \<Rightarrow> int \<Rightarrow> bool \<Rightarrow> Hub" where
  "hub_of srvs ndots use =
     \<lparr>QueryFlags = \<lparr>Nameservers_qf = srvs, Ndots_qf = ndots, UseSearchList = use\<rparr>,
      ResolverOpts = \<lparr>Ndots = ndots, SearchList = []\<rparr>, Nameservers = []\<rparr>"

text \<open>The number that a string of decimal digits denotes.\<close>

definition dec_value :: "string \<Rightarrow> nat" where
  "dec_value s = foldl (\<lambda>a c. 10 * a + (of_char c - 48)) 0 s"

section \<open>Properties of \<^verbatim>\<open>constructPossibleQuestions\<close>\<close>

lemma search_loop_append:
  "search_loop L name searchList names = names @ map (\<lambda>s. Fqdn L (name @ s)) searchList"
  by (induction searchList arbitrary: names) simp_all

text \<open>On a name without a backslash, the instance of \<^verbatim>\<open>dns.IsFqdn\<close> says whether the
  name ends with a dot.\<close>

lemma miekg_IsFqdn_plain:
  assumes "backslash \<notin> set s"
  shows "miekg_IsFqdn s \<longleftrightarrow> s \<noteq> [] \<and> last s = CHR ''.''"
proof (cases "s = [] \<or> last s \<noteq> CHR ''.''")
  case True
  then show ?thesis by (auto simp add: miekg_IsFqdn_def)
next
  case False
  then have s: "s \<noteq> []" "last s = CHR ''.''" by auto
  have "butlast s = [] \<or> last (butlast s) \<noteq> backslash"
  proof (cases "butlast s = []")
    case True
    then show ?thesis by simp
  next
    case False
    then have "last (butlast s) \<in> set (butlast s)" by simp
    then have "last (butlast s) \<in> set s" by (rule in_set_butlastD)
    with assms show ?thesis by auto
  qed
  with s show ?thesis by (auto simp add: miekg_IsFqdn_def Let_def)
qed

text \<open>
  C1. For a name that is not fully qualified, whatever \<open>ndots\<close> and the search list
  are, the candidates are in this order: when the label count of the name is greater
  than \<open>ndots\<close>, the name with the root dot appended comes first, followed by one entry
  per suffix of the search list, in list order, each the fully-qualified concatenation
  of the dotted name and the suffix; otherwise these entries come first and the dotted
  name comes last. The result is never empty.
\<close>

theorem expand_order:
  assumes "\<not> IsFqdn L name"
  shows "constructPossibleQuestions L name ndots searchList =
           (if CountLabel L name > ndots
            then (name @ ''.'') # map (\<lambda>s. Fqdn L ((name @ ''.'') @ s)) searchList
            else map (\<lambda>s. Fqdn L ((name @ ''.'') @ s)) searchList @ [name @ ''.''])
         \<and> constructPossibleQuestions L name ndots searchList \<noteq> []"
  using assms
  by (simp add: constructPossibleQuestions_def Fqdn_def search_loop_append Let_def)

theorem expand_order_witness:
  "\<not> IsFqdn miekg ''host'' \<and> \<not> IsFqdn miekg ''a.b.c''
   \<and> constructPossibleQuestions miekg ''host'' 1 [''corp.local''] = [''host.corp.local.'', ''host.'']
   \<and> constructPossibleQuestions miekg ''a.b.c'' 1 [''corp.local''] = [''a.b.c.'', ''a.b.c.corp.local.'']"
proof -
  have h: "\<not> IsFqdn miekg ''host''" by code_simp
  have a: "\<not> IsFqdn miekg ''a.b.c''" by code_simp
  have c1: "\<not> CountLabel miekg ''host'' > 1" by code_simp
  have c2: "CountLabel miekg ''a.b.c'' > 1" by code_simp
  have f1: "Fqdn miekg (''host.'' @ ''corp.local'') = ''host.corp.local.''" by code_simp
  have f2: "Fqdn miekg (''a.b.c.'' @ ''corp.local'') = ''a.b.c.corp.local.''" by code_simp
  from expand_order [OF h, of 1 "[''corp.local'']"] c1 f1
  have "constructPossibleQuestions miekg ''host'' 1 [''corp.local''] = [''host.corp.local.'', ''host.'']"
    by simp
  moreover from expand_order [OF a, of 1 "[''corp.local'']"] c2 f2
  have "constructPossibleQuestions miekg ''a.b.c'' 1 [''corp.local''] = [''a.b.c.'', ''a.b.c.corp.local.'']"
    by simp
  ultimately show ?thesis using h a by simp
qed

text \<open>
  C8. For a name that is already fully qualified, whatever \<open>ndots\<close> and the search
  list are, the result is the one-element sequence of that name, unchanged: the search
  list is not applied.
\<close>

theorem expand_qualified:
  "IsFqdn L name \<Longrightarrow> constructPossibleQuestions L name ndots searchList = [name]"
  by (simp add: constructPossibleQuestions_def)

theorem expand_qualified_witness:
  "IsFqdn miekg ''example.com.''
   \<and> constructPossibleQuestions miekg ''example.com.'' 2 [''corp.local''] = [''example.com.'']"
proof -
  have h: "IsFqdn miekg ''example.com.''" by code_simp
  from expand_qualified [OF h, of 2 "[''corp.local'']"] h show ?thesis by simp
qed

section \<open>Properties of \<^verbatim>\<open>prepareMessages\<close>\<close>

lemma messages_loop_eq:
  "messages_loop draws q names (messages, k) =
     (messages @ map (\<lambda>(j, qName). Msg_zero\<lparr>Id_msg := draws j, RecursionDesired := True,
         Question := [\<lparr>Name_q = qName, Qtype = Qtype q, Qclass = Qclass q\<rparr>]\<rparr>) (enumerate k names),
      k + length names)"
  by (induction names arbitrary: messages k) (simp_all add: dns_Id_def)

text \<open>
  C9, as the code has it. There is one message per candidate name, in the order of the
  candidates; each has recursion-desired set, every other header field zero, one
  question with the candidate name and the \<open>qtype\<close> and \<open>qclass\<close> of the original
  question, and as transaction id the value of its own call of the random source: the
  message at position \<open>j\<close> gets the draw number \<open>k + j\<close>, where \<open>k\<close> calls were made
  before. Nothing makes the id different from zero or the names different from each
  other.
\<close>

theorem prepareMessages_eq:
  "prepareMessages L draws k q ndots searchList =
     (map (\<lambda>(j, qName). Msg_zero\<lparr>Id_msg := draws j, RecursionDesired := True,
         Question := [\<lparr>Name_q = qName, Qtype = Qtype q, Qclass = Qclass q\<rparr>]\<rparr>)
       (enumerate k (constructPossibleQuestions L (Name_q q) ndots searchList)),
      k + length (constructPossibleQuestions L (Name_q q) ndots searchList))"
  by (simp add: prepareMessages_def messages_loop_eq Let_def)

theorem prepareMessages_eq_witness:
  "map (\<lambda>m. (Id_msg m, RecursionDesired m, Question m))
     (fst (prepareMessages miekg (\<lambda>k. 7 + of_nat k) 0 \<lparr>Name_q = ''host'', Qtype = 28, Qclass = 1\<rparr> 1
        [''corp.local'']))
   = [(7, True, [\<lparr>Name_q = ''host.corp.local.'', Qtype = 28, Qclass = 1\<rparr>]),
      (8, True, [\<lparr>Name_q = ''host.'', Qtype = 28, Qclass = 1\<rparr>])]"
proof -
  have c: "constructPossibleQuestions miekg ''host'' 1 [''corp.local''] = [''host.corp.local.'', ''host.'']"
    by code_simp
  show ?thesis
    using prepareMessages_eq [of miekg "\<lambda>k. 7 + of_nat k" 0
        "\<lparr>Name_q = ''host'', Qtype = 28, Qclass = 1\<rparr>" 1 "[''corp.local'']"]
    by (simp add: c enumerate_eq_zip upt_rec)
qed

text \<open>
  C9 as the specification states it asks for a non-zero transaction id and a distinct
  question name in every message. With a random source whose first value is 0 and a
  search list that lists a domain both with and without the root dot, the first message
  has the id 0 and the first two messages have the same question name.
\<close>

theorem prepareMessages_counterexample:
  "map (\<lambda>m. (Id_msg m, map Name_q (Question m)))
     (fst (prepareMessages miekg (\<lambda>k. if k = 0 then 0 else 4660) 0
        \<lparr>Name_q = ''host'', Qtype = 1, Qclass = 1\<rparr> 1 [''corp.local'', ''corp.local.'']))
   = [(0, [''host.corp.local.'']), (4660, [''host.corp.local.'']), (4660, [''host.''])]"
proof -
  have c: "constructPossibleQuestions miekg ''host'' 1 [''corp.local'', ''corp.local.'']
      = [''host.corp.local.'', ''host.corp.local.'', ''host.'']"
    by code_simp
  show ?thesis
    by (simp add: prepareMessages_def c dns_Id_def Msg_zero_def)
qed

section \<open>Properties of \<^verbatim>\<open>parseMessage\<close>\<close>

subsection \<open>Decimal rendering\<close>

lemma digit_char_value: "d < 10 \<Longrightarrow> of_char (digit_char d) = (48 + d :: nat)"
proof -
  assume "d < 10"
  then have "d \<in> {0, 1, 2, 3, 4, 5, 6, 7, 8, 9}" by auto
  then show ?thesis by (auto simp add: digit_char_def)
qed

lemma is_digit_digit_char: "d < 10 \<Longrightarrow> is_digit (digit_char d)"
  by (simp add: is_digit_def byte_def digit_char_value)

text \<open>\<open>dec_digits\<close> writes a number in base 10: its output is made of digits and denotes
  the number.\<close>

lemma dec_value_digits: "dec_value (dec_digits n) = n"
proof (induction n rule: dec_digits.induct)
  case (1 n)
  show ?case
  proof (cases "n < 10")
    case True
    then show ?thesis
      by (simp add: dec_digits.simps [of n] dec_value_def digit_char_value)
  next
    case False
    with 1 have "dec_value (dec_digits (n div 10)) = n div 10" by simp
    with False show ?thesis
      by (simp add: dec_digits.simps [of n] dec_value_def digit_char_value)
  qed
qed

lemma dec_digits_are_digits: "list_all is_digit (dec_digits n)"
proof (induction n rule: dec_digits.induct)
  case (1 n)
  show ?case
  proof (cases "n < 10")
    case True
    then show ?thesis
      by (simp add: dec_digits.simps [of n] is_digit_digit_char)
  next
    case False
    with 1 have "list_all is_digit (dec_digits (n div 10))" by simp
    with False show ?thesis
      by (simp add: dec_digits.simps [of n] is_digit_digit_char)
  qed
qed

lemmas FormatInt10_eval = Milliseconds_def signed_divide_int_def FormatInt10_def dec_digits.simps
  digit_char_def

subsection \<open>The two loops\<close>

lemma authorities_loop_Authorities:
  "Authorities (authorities_loop L msg t srv rs resp) =
     Authorities resp @ List.map_filter (authority_of L msg t srv) rs"
  by (induction rs arbitrary: resp) (simp_all add: List.map_filter_simps split: option.splits)



lemma answers_loop_Authorities:
  "Authorities (answers_loop L t srv rs resp) = Authorities resp"
  by (induction rs arbitrary: resp) simp_all

lemma parseMessage_Authorities:
  "Authorities (parseMessage L msg rtt server) =
     List.map_filter (authority_of L msg (FormatInt10 (Milliseconds rtt) @ ''ms'') server) (Ns msg)"
  by (simp add: parseMessage_def Let_def answers_loop_Authorities authorities_loop_Authorities)


lemma map_filter_authority:
  "map (\<lambda>a. (MName a, Status a)) (List.map_filter (authority_of L msg t srv) rs) =
     [(ns @ '' '' @ mbox @ '' '' @ FormatInt10 (uint serial) @ '' '' @ FormatInt10 (uint refresh)
          @ '' '' @ FormatInt10 (uint retry) @ '' '' @ FormatInt10 (uint expire)
          @ '' '' @ FormatInt10 (uint minttl), map_index (RcodeToString L) (Rcode msg)).
        RR_SOA ns mbox serial refresh retry expire minttl \<leftarrow> map Data rs]"
  by (induction rs) (simp_all add: List.map_filter_simps authority_of_def Let_def split: RData.splits)

text \<open>
  C4. For every response, the authority entries of the result are, in the order of the
  authority section, one per start-of-authority record and none for any other record.
  The \<open>mname\<close> of each is the record's name server, mailbox, serial, refresh, retry,
  expire and minimum TTL joined by single spaces, the numbers in base 10, and its
  status is the entry of the library's table of result-code names at the result code of
  the response.
\<close>

theorem authority_entries:
  "map (\<lambda>a. (MName a, Status a)) (Authorities (parseMessage L msg rtt server)) =
     [(ns @ '' '' @ mbox @ '' '' @ FormatInt10 (uint serial) @ '' '' @ FormatInt10 (uint refresh)
          @ '' '' @ FormatInt10 (uint retry) @ '' '' @ FormatInt10 (uint expire)
          @ '' '' @ FormatInt10 (uint minttl), map_index (RcodeToString L) (Rcode msg)).
        RR_SOA ns mbox serial refresh retry expire minttl \<leftarrow> map Data (Ns msg)]"
  by (simp only: parseMessage_Authorities map_filter_authority)

theorem authority_entries_witness:
  "\<forall>L. map (\<lambda>a. (MName a, Status a)) (Authorities (parseMessage L example_msg 12345678 ''8.8.8.8:53''))
     = [(''ns1.example.com. admin.example.com. 2020120101 7200 3600 1209600 300'',
         map_index (RcodeToString L) 3)]"
proof
  fix L
  have f: "FormatInt10 2020120101 = ''2020120101''"
     "FormatInt10 7200 = ''7200''"
     "FormatInt10 3600 = ''3600''"
     "FormatInt10 1209600 = ''1209600''"
     "FormatInt10 300 = ''300''"
    by (simp_all add: FormatInt10_eval)
  show "map (\<lambda>a. (MName a, Status a)) (Authorities (parseMessage L example_msg 12345678 ''8.8.8.8:53''))
     = [(''ns1.example.com. admin.example.com. 2020120101 7200 3600 1209600 300'',
         map_index (RcodeToString L) 3)]"
    using authority_entries [of L example_msg 12345678 "''8.8.8.8:53''"]
    by (simp add: example_msg_def example_soa_def example_ns_def Msg_zero_def f)
qed



section \<open>Properties of \<^verbatim>\<open>initNameserver\<close>\<close>

lemma JoinHostPort_nonempty: "JoinHostPort host port \<noteq> []"
  by (simp add: JoinHostPort_def)

lemma URL_String_scheme: "Scheme u \<noteq> [] \<Longrightarrow> \<exists>rest. URL_String u = Scheme u @ '':'' @ rest"
  by (simp add: URL_String_def Let_def split: option.splits)

lemma URL_String_nonempty: "Scheme u \<noteq> [] \<Longrightarrow> URL_String u \<noteq> []"
  using URL_String_scheme [of u] by auto

lemma initNameserver_nonempty:
  "Address (fst (initNameserver Parse n)) \<noteq> [] \<and> Type (fst (initNameserver Parse n)) \<noteq> []"
proof (cases "Parse n")
  case (Inl err)
  then show ?thesis
    by (simp add: initNameserver_def JoinHostPort_nonempty UDPResolver_def)
next
  case (Inr u)
  have "Scheme u = ''https'' \<Longrightarrow> URL_String u \<noteq> []"
    using URL_String_nonempty [of u] by simp
  with Inr show ?thesis
    by (simp add: initNameserver_def Let_def JoinHostPort_nonempty
          UDPResolver_def TCPResolver_def DOTResolver_def DOHResolver_def)
qed

lemma eval_8888:
  "initNameserver go_Parse ''8.8.8.8'' = (\<lparr>Address = ''8.8.8.8:53'', Type = ''udp''\<rparr>, None)"
  by code_simp

lemma eval_tls:
  "initNameserver go_Parse ''tls://1.1.1.1'' = (\<lparr>Address = ''1.1.1.1:853'', Type = ''dot''\<rparr>, None)"
  by code_simp

lemma eval_hostport:
  "initNameserver go_Parse ''1.1.1.1:53'' =
     (\<lparr>Address = ''[1.1.1.1:53]:53'', Type = ''udp''\<rparr>, Some FirstPathSegmentColon)"
  by code_simp

text \<open>
  C6, as the code has it. When the string parses, the endpoint is decided by the scheme
  of the parsed URL. With no scheme (or one that is none of the four below) it is
  protocol \<open>udp\<close> with the whole string joined to port 53; with \<open>tls\<close> it is protocol
  \<open>dot\<close> with the host name of the URL joined to its port, 853 when the URL has none;
  with \<open>tcp\<close> and \<open>udp\<close> it is that protocol, with port 53 when the URL has none; with
  \<open>https\<close> it is protocol \<open>doh\<close> with the text that \<^verbatim>\<open>URL.String\<close> writes for the
  parsed URL.
\<close>

theorem classify:
  assumes "Parse n = Inr u"
  shows "initNameserver Parse n =
       (if Scheme u = ''https'' then \<lparr>Address = URL_String u, Type = ''doh''\<rparr>
        else if Scheme u = ''tls'' then
          \<lparr>Address = JoinHostPort (Hostname u) (if Port u = [] then ''853'' else Port u), Type = ''dot''\<rparr>
        else if Scheme u = ''tcp'' then
          \<lparr>Address = JoinHostPort (Hostname u) (if Port u = [] then ''53'' else Port u), Type = ''tcp''\<rparr>
        else if Scheme u = ''udp'' then
          \<lparr>Address = JoinHostPort (Hostname u) (if Port u = [] then ''53'' else Port u), Type = ''udp''\<rparr>
        else \<lparr>Address = JoinHostPort n ''53'', Type = ''udp''\<rparr>,
        None)"
proof -
  have ports: "DefaultUDPPort = ''53''" "DefaultTCPPort = ''53''" "DefaultTLSPort = ''853''"
    by (simp_all add: DefaultUDPPort_def DefaultTCPPort_def DefaultTLSPort_def)
  have types: "UDPResolver = ''udp''" "TCPResolver = ''tcp''" "DOTResolver = ''dot''"
      "DOHResolver = ''doh''"
    by (simp_all add: UDPResolver_def TCPResolver_def DOTResolver_def DOHResolver_def)
  from assms show ?thesis
    by (simp add: initNameserver_def Let_def ports types)
qed

text \<open>The examples of the specification, and a literal IPv6 address.\<close>

theorem classify_witness:
  "initNameserver go_Parse ''8.8.8.8'' = (\<lparr>Address = ''8.8.8.8:53'', Type = ''udp''\<rparr>, None)
   \<and> initNameserver go_Parse ''tls://1.1.1.1'' = (\<lparr>Address = ''1.1.1.1:853'', Type = ''dot''\<rparr>, None)
   \<and> initNameserver go_Parse ''tcp://9.9.9.9:5353'' = (\<lparr>Address = ''9.9.9.9:5353'', Type = ''tcp''\<rparr>, None)
   \<and> initNameserver go_Parse ''udp://[::1]'' = (\<lparr>Address = ''[::1]:53'', Type = ''udp''\<rparr>, None)
   \<and> initNameserver go_Parse ''https://dns.google/dns-query''
        = (\<lparr>Address = ''https://dns.google/dns-query'', Type = ''doh''\<rparr>, None)"
proof -
  let ?u1 = "URL_zero\<lparr>Path := ''8.8.8.8''\<rparr>"
  let ?u2 = "URL_zero\<lparr>Scheme := ''tls'', Host := ''1.1.1.1''\<rparr>"
  let ?u3 = "URL_zero\<lparr>Scheme := ''tcp'', Host := ''9.9.9.9:5353''\<rparr>"
  let ?u4 = "URL_zero\<lparr>Scheme := ''udp'', Host := ''[::1]''\<rparr>"
  let ?u5 = "URL_zero\<lparr>Scheme := ''https'', Host := ''dns.google'', Path := ''/dns-query''\<rparr>"
  have p1: "go_Parse ''8.8.8.8'' = Inr ?u1" by code_simp
  have p2: "go_Parse ''tls://1.1.1.1'' = Inr ?u2" by code_simp
  have p3: "go_Parse ''tcp://9.9.9.9:5353'' = Inr ?u3" by code_simp
  have p4: "go_Parse ''udp://[::1]'' = Inr ?u4" by code_simp
  have p5: "go_Parse ''https://dns.google/dns-query'' = Inr ?u5" by code_simp
  have j1: "JoinHostPort ''8.8.8.8'' ''53'' = ''8.8.8.8:53''" by code_simp
  have j2: "JoinHostPort (Hostname ?u2) (if Port ?u2 = [] then ''853'' else Port ?u2) = ''1.1.1.1:853''"
    by code_simp
  have j3: "JoinHostPort (Hostname ?u3) (if Port ?u3 = [] then ''53'' else Port ?u3) = ''9.9.9.9:5353''"
    by code_simp
  have j4: "JoinHostPort (Hostname ?u4) (if Port ?u4 = [] then ''53'' else Port ?u4) = ''[::1]:53''"
    by code_simp
  have j5: "URL_String ?u5 = ''https://dns.google/dns-query''" by code_simp
  have "initNameserver go_Parse ''8.8.8.8'' = (\<lparr>Address = ''8.8.8.8:53'', Type = ''udp''\<rparr>, None)"
    using classify [of go_Parse "''8.8.8.8''" ?u1, OF p1] j1 by (simp add: URL_zero_def)
  moreover have "initNameserver go_Parse ''tls://1.1.1.1'' = (\<lparr>Address = ''1.1.1.1:853'', Type = ''dot''\<rparr>, None)"
    using classify [of go_Parse "''tls://1.1.1.1''" ?u2, OF p2] j2 by (simp add: URL_zero_def)
  moreover have "initNameserver go_Parse ''tcp://9.9.9.9:5353'' = (\<lparr>Address = ''9.9.9.9:5353'', Type = ''tcp''\<rparr>, None)"
    using classify [of go_Parse "''tcp://9.9.9.9:5353''" ?u3, OF p3] j3 by (simp add: URL_zero_def)
  moreover have "initNameserver go_Parse ''udp://[::1]'' = (\<lparr>Address = ''[::1]:53'', Type = ''udp''\<rparr>, None)"
    using classify [of go_Parse "''udp://[::1]''" ?u4, OF p4] j4 by (simp add: URL_zero_def)
  moreover have "initNameserver go_Parse ''https://dns.google/dns-query''
        = (\<lparr>Address = ''https://dns.google/dns-query'', Type = ''doh''\<rparr>, None)"
    using classify [of go_Parse "''https://dns.google/dns-query''" ?u5, OF p5] j5 by (simp add: URL_zero_def)
  ultimately show ?thesis by simp
qed

text \<open>
  C6 as the specification states it keeps an \<open>https\<close> string unchanged. The parser
  lowers the case of the scheme and \<^verbatim>\<open>URL.String\<close> writes no empty fragment, so for
  these two strings with the scheme \<open>https\<close> the address is not the input.
\<close>

theorem classify_counterexample:
  "initNameserver go_Parse ''HTTPS://dns.google/dns-query''
     = (\<lparr>Address = ''https://dns.google/dns-query'', Type = ''doh''\<rparr>, None)
   \<and> Address (fst (initNameserver go_Parse ''HTTPS://dns.google/dns-query'')) \<noteq> ''HTTPS://dns.google/dns-query''
   \<and> initNameserver go_Parse ''https://dns.google/dns-query#''
     = (\<lparr>Address = ''https://dns.google/dns-query'', Type = ''doh''\<rparr>, None)
   \<and> Address (fst (initNameserver go_Parse ''https://dns.google/dns-query#'')) \<noteq> ''https://dns.google/dns-query#''"
  by code_simp

section \<open>Properties of \<^verbatim>\<open>loadNameservers\<close>\<close>

lemma nameservers_loop_eq:
  "nameservers_loop Parse srvs hub =
     (hub\<lparr>Nameservers := Nameservers hub @
          map (\<lambda>s. fst (initNameserver Parse s)) (takeWhile (\<lambda>s. snd (initNameserver Parse s) = None) srvs)\<rparr>,
      case dropWhile (\<lambda>s. snd (initNameserver Parse s) = None) srvs of
        [] \<Rightarrow> None
      | srv # rest \<Rightarrow> Some (''error parsing nameserver: '' @ srv))"
proof (induction srvs arbitrary: hub)
  case Nil
  show ?case by simp
next
  case (Cons srv rest)
  obtain ns e where i: "initNameserver Parse srv = (ns, e)" by (cases "initNameserver Parse srv")
  have ne: "Address ns \<noteq> [] \<and> Type ns \<noteq> []"
    using initNameserver_nonempty [of Parse srv] i by simp
  show ?case
  proof (cases e)
    case None
    with i ne Cons.IH show ?thesis by simp
  next
    case (Some err)
    with i show ?thesis by simp
  qed
qed

lemma servers_loop_eq:
  "servers_loop dnsServers servers =
     servers @ map (\<lambda>s. \<lparr>Address = JoinHostPort s ''53'', Type = ''udp''\<rparr>) dnsServers"
  by (induction dnsServers arbitrary: servers) (simp_all add: DefaultUDPPort_def UDPResolver_def)

text \<open>
  C10. For every string, and whatever \<^verbatim>\<open>url.Parse\<close> returns for it, the endpoint that
  \<^verbatim>\<open>initNameserver\<close> returns has an address and a type that are not empty. So the
  loop of \<^verbatim>\<open>loadNameservers\<close> skips nothing: it appends the endpoint of every string
  up to the first one that does not parse.
\<close>

theorem endpoint_nonempty:
  "Address (fst (initNameserver Parse n)) \<noteq> []
   \<and> Type (fst (initNameserver Parse n)) \<noteq> []
   \<and> Nameservers (fst (nameservers_loop Parse srvs hub)) =
       Nameservers hub @ map (\<lambda>s. fst (initNameserver Parse s))
         (takeWhile (\<lambda>s. snd (initNameserver Parse s) = None) srvs)"
  using initNameserver_nonempty [of Parse n] by (simp add: nameservers_loop_eq)

theorem endpoint_nonempty_witness:
  "Address (fst (initNameserver go_Parse ''1.1.1.1:53'')) = ''[1.1.1.1:53]:53''
   \<and> Type (fst (initNameserver go_Parse ''1.1.1.1:53'')) = ''udp''
   \<and> Nameservers (fst (nameservers_loop go_Parse
        [''8.8.8.8'', ''tls://1.1.1.1'', ''1.1.1.1:53'', ''9.9.9.9''] (hub_of [] 0 False)))
       = [\<lparr>Address = ''8.8.8.8:53'', Type = ''udp''\<rparr>, \<lparr>Address = ''1.1.1.1:853'', Type = ''dot''\<rparr>]"
  using endpoint_nonempty [of go_Parse "''1.1.1.1:53''"
      "[''8.8.8.8'', ''tls://1.1.1.1'', ''1.1.1.1:53'', ''9.9.9.9'']" "hub_of [] 0 False"]
  by (simp add: eval_8888 eval_tls eval_hostport hub_of_def)

lemma nameservers_loop_failure:
  assumes "list_all (\<lambda>s. snd (initNameserver Parse s) = None) pre"
    and "snd (initNameserver Parse bad) \<noteq> None"
  shows "nameservers_loop Parse (pre @ bad # rest) hub =
           (hub\<lparr>Nameservers := Nameservers hub @ map (\<lambda>s. fst (initNameserver Parse s)) pre\<rparr>,
            Some (''error parsing nameserver: '' @ bad))"
proof -
  from assms(1) have p: "\<forall>s\<in>set pre. snd (initNameserver Parse s) = None"
    by (simp add: list_all_iff)
  from p assms(2) have t: "takeWhile (\<lambda>s. snd (initNameserver Parse s) = None) (pre @ bad # rest) = pre"
    by (simp add: takeWhile_append2 del: not_None_eq)
  from p assms(2) have dr: "dropWhile (\<lambda>s. snd (initNameserver Parse s) = None) (pre @ bad # rest) = bad # rest"
    by (simp add: dropWhile_append2 del: not_None_eq)
  show ?thesis
    by (simp add: nameservers_loop_eq t dr)
qed

lemma loadNameservers_parsed:
  assumes "list_all (\<lambda>s. snd (initNameserver Parse s) = None) (Nameservers_qf (QueryFlags hub))"
  shows "loadNameservers Parse d hub =
     (let hub1 = hub\<lparr>Nameservers := Nameservers hub @
                   map (\<lambda>s. fst (initNameserver Parse s)) (Nameservers_qf (QueryFlags hub))\<rparr>
      in if Nameservers hub1 = [] then
              (case d of
                 Inl err \<Rightarrow> (hub1, Some ''error fetching system default nameserver'')
               | Inr (dnsServers, ndots, search) \<Rightarrow>
                   (hub1\<lparr>ResolverOpts :=
                       \<lparr>Ndots = (if Ndots_qf (QueryFlags hub) = 0 then ndots else Ndots (ResolverOpts hub)),
                        SearchList = (if search \<noteq> [] \<and> UseSearchList (QueryFlags hub) then search
                                      else SearchList (ResolverOpts hub))\<rparr>,
                      Nameservers := map (\<lambda>s. \<lparr>Address = JoinHostPort s ''53'', Type = ''udp''\<rparr>) dnsServers\<rparr>,
                    None))
            else (hub1, None))"
proof -
  from assms have ok: "\<forall>s\<in>set (Nameservers_qf (QueryFlags hub)). snd (initNameserver Parse s) = None"
    by (simp add: list_all_iff)
  then have t: "takeWhile (\<lambda>s. snd (initNameserver Parse s) = None) (Nameservers_qf (QueryFlags hub))
      = Nameservers_qf (QueryFlags hub)"
    by (simp add: takeWhile_eq_all_conv)
  from ok have dr: "dropWhile (\<lambda>s. snd (initNameserver Parse s) = None) (Nameservers_qf (QueryFlags hub)) = []"
    by simp
  have loop: "nameservers_loop Parse (Nameservers_qf (QueryFlags hub)) hub =
      (hub\<lparr>Nameservers := Nameservers hub @
                   map (\<lambda>s. fst (initNameserver Parse s)) (Nameservers_qf (QueryFlags hub))\<rparr>, None)"
    by (simp add: nameservers_loop_eq t dr)
  show ?thesis
  proof (cases d)
    case (Inl err)
    show ?thesis
      by (simp add: loadNameservers_def loop getDefaultServers_def Let_def Inl)
  next
    case (Inr r)
    obtain dnsServers ndots search where r: "r = (dnsServers, ndots, search)"
      by (cases r) auto
    show ?thesis
      by (simp add: loadNameservers_def loop getDefaultServers_def servers_loop_eq Let_def Inr r)
  qed
qed

lemma first_failure:
  "list_all (\<lambda>s. snd (initNameserver Parse s) = None) srvs
   \<or> (\<exists>pre bad rest. srvs = pre @ bad # rest
         \<and> list_all (\<lambda>s. snd (initNameserver Parse s) = None) pre
         \<and> snd (initNameserver Parse bad) \<noteq> None)"
proof (cases "list_all (\<lambda>s. snd (initNameserver Parse s) = None) srvs")
  case True
  then show ?thesis by simp
next
  case False
  then have "\<exists>x\<in>set srvs. snd (initNameserver Parse x) \<noteq> None"
    by (simp add: list_all_iff del: not_None_eq)
  then obtain pre bad rest where "srvs = pre @ bad # rest"
      "snd (initNameserver Parse bad) \<noteq> None" "\<forall>y\<in>set pre. \<not> snd (initNameserver Parse y) \<noteq> None"
    using split_list_first_prop [of srvs "\<lambda>x. snd (initNameserver Parse x) \<noteq> None"] by blast
  then show ?thesis
    by (auto simp add: list_all_iff simp del: not_None_eq)
qed

text \<open>
  C2, as the code has it. A string that does not parse ends the load: the loader stops
  at the first such string and returns an error that names it. The endpoints of the
  strings before it stay appended to the hub; the strings after it are not looked at,
  and the system defaults are not consulted.
\<close>

theorem parse_failure_aborts:
  assumes "list_all (\<lambda>s. snd (initNameserver Parse s) = None) pre"
    and "snd (initNameserver Parse bad) \<noteq> None"
    and "Nameservers_qf (QueryFlags hub) = pre @ bad # rest"
  shows "loadNameservers Parse d hub =
           (hub\<lparr>Nameservers := Nameservers hub @ map (\<lambda>s. fst (initNameserver Parse s)) pre\<rparr>,
            Some (''error parsing nameserver: '' @ bad))"
proof -
  have "nameservers_loop Parse (Nameservers_qf (QueryFlags hub)) hub =
          (hub\<lparr>Nameservers := Nameservers hub @ map (\<lambda>s. fst (initNameserver Parse s)) pre\<rparr>,
           Some (''error parsing nameserver: '' @ bad))"
    using nameservers_loop_failure [OF assms(1) assms(2)] assms(3) by simp
  then show ?thesis
    by (simp add: loadNameservers_def)
qed

theorem parse_failure_aborts_witness:
  "list_all (\<lambda>s. snd (initNameserver go_Parse s) = None) [''8.8.8.8'']
   \<and> snd (initNameserver go_Parse ''1.1.1.1:53'') \<noteq> None
   \<and> loadNameservers go_Parse (Inr ([''192.168.1.1''], 1, []))
        (hub_of [''8.8.8.8'', ''1.1.1.1:53'', ''tls://1.1.1.1''] 0 False)
      = ((hub_of [''8.8.8.8'', ''1.1.1.1:53'', ''tls://1.1.1.1''] 0 False)
            \<lparr>Nameservers := [\<lparr>Address = ''8.8.8.8:53'', Type = ''udp''\<rparr>]\<rparr>,
         Some ''error parsing nameserver: 1.1.1.1:53'')"
proof -
  have a: "list_all (\<lambda>s. snd (initNameserver go_Parse s) = None) [''8.8.8.8'']"
    by (simp add: eval_8888)
  have b: "snd (initNameserver go_Parse ''1.1.1.1:53'') \<noteq> None"
    by (simp add: eval_hostport)
  have c: "Nameservers_qf (QueryFlags (hub_of [''8.8.8.8'', ''1.1.1.1:53'', ''tls://1.1.1.1''] 0 False))
     = [''8.8.8.8''] @ ''1.1.1.1:53'' # [''tls://1.1.1.1'']"
    by (simp add: hub_of_def)
  from parse_failure_aborts [OF a b c, of "Inr ([''192.168.1.1''], 1, [])"] a b show ?thesis
    by (simp add: eval_8888 hub_of_def)
qed

text \<open>
  C2 as the specification states it has the loader go on after a string that does not
  parse. Here the first string has a port and no scheme, which \<^verbatim>\<open>url.Parse\<close> rejects;
  the second string parses. The loader returns the error for the first and leaves the
  hub without any endpoint: the second string is not processed.
\<close>

theorem parse_failure_counterexample:
  "loadNameservers go_Parse (Inr ([''192.168.1.1''], 1, [])) (hub_of [''1.1.1.1:53'', ''8.8.8.8''] 0 False)
     = (hub_of [''1.1.1.1:53'', ''8.8.8.8''] 0 False, Some ''error parsing nameserver: 1.1.1.1:53'')
   \<and> initNameserver go_Parse ''8.8.8.8'' = (\<lparr>Address = ''8.8.8.8:53'', Type = ''udp''\<rparr>, None)
   \<and> Nameservers (fst (loadNameservers go_Parse (Inr ([''192.168.1.1''], 1, []))
        (hub_of [''1.1.1.1:53'', ''8.8.8.8''] 0 False))) = []"
  by (simp add: loadNameservers_def hub_of_def eval_8888 eval_hostport)

text \<open>
  C3, as the code has it. When the loader returns without an error, the endpoint list
  is empty in one case only: the hub had no endpoint, the user gave no nameserver
  string, and the system defaults were read without an error and held no address. In
  every other case of a return without an error the list is not empty.
\<close>

theorem loader_nonempty:
  assumes "snd (loadNameservers Parse d hub) = None"
  shows "Nameservers (fst (loadNameservers Parse d hub)) = [] \<longleftrightarrow>
           (Nameservers hub = [] \<and> Nameservers_qf (QueryFlags hub) = []
            \<and> (\<exists>ndots search. d = Inr ([], ndots, search)))"
proof -
  from first_failure [of Parse "Nameservers_qf (QueryFlags hub)"]
  show ?thesis
  proof
    assume ok: "list_all (\<lambda>s. snd (initNameserver Parse s) = None) (Nameservers_qf (QueryFlags hub))"
    from assms show ?thesis
      by (auto simp add: loadNameservers_parsed [OF ok] Let_def split: sum.splits if_splits)
  next
    assume "\<exists>pre bad rest. Nameservers_qf (QueryFlags hub) = pre @ bad # rest
         \<and> list_all (\<lambda>s. snd (initNameserver Parse s) = None) pre
         \<and> snd (initNameserver Parse bad) \<noteq> None"
    then obtain pre bad rest where "Nameservers_qf (QueryFlags hub) = pre @ bad # rest"
        "list_all (\<lambda>s. snd (initNameserver Parse s) = None) pre"
        "snd (initNameserver Parse bad) \<noteq> None"
      by blast
    from nameservers_loop_failure [OF this(2) this(3), of rest hub] this(1) assms show ?thesis
      by (simp add: loadNameservers_def)
  qed
qed

theorem loader_nonempty_witness:
  "snd (loadNameservers go_Parse (Inr ([''192.168.1.1''], 1, [''lan''])) (hub_of [] 0 True)) = None
   \<and> Nameservers (fst (loadNameservers go_Parse (Inr ([''192.168.1.1''], 1, [''lan''])) (hub_of [] 0 True)))
       = [\<lparr>Address = ''192.168.1.1:53'', Type = ''udp''\<rparr>]"
proof -
  have j: "JoinHostPort ''192.168.1.1'' ''53'' = ''192.168.1.1:53''" by code_simp
  have l: "loadNameservers go_Parse (Inr ([''192.168.1.1''], 1, [''lan''])) (hub_of [] 0 True)
    = ((hub_of [] 0 True)\<lparr>ResolverOpts := \<lparr>Ndots = 1, SearchList = [''lan'']\<rparr>,
         Nameservers := [\<lparr>Address = ''192.168.1.1:53'', Type = ''udp''\<rparr>]\<rparr>, None)"
    by (simp add: loadNameservers_def hub_of_def getDefaultServers_def j DefaultUDPPort_def UDPResolver_def)
  then have s: "snd (loadNameservers go_Parse (Inr ([''192.168.1.1''], 1, [''lan''])) (hub_of [] 0 True)) = None"
    by simp
  from loader_nonempty [OF s] l show ?thesis by simp
qed

text \<open>
  C3 as the specification states it: no empty endpoint list with a \<^verbatim>\<open>nil\<close> error. With
  no nameserver string from the user and system defaults that hold no address, the
  loader returns no error and the endpoint list is empty.
\<close>

theorem loader_nonempty_counterexample:
  "loadNameservers go_Parse (Inr ([], 1, [])) (hub_of [] 0 False)
     = ((hub_of [] 0 False)\<lparr>ResolverOpts := \<lparr>Ndots = 1, SearchList = []\<rparr>\<rparr>, None)
   \<and> Nameservers (fst (loadNameservers go_Parse (Inr ([], 1, [])) (hub_of [] 0 False))) = []
   \<and> snd (loadNameservers go_Parse (Inr ([], 1, [])) (hub_of [] 0 False)) = None"
  by (simp add: loadNameservers_def hub_of_def getDefaultServers_def)

text \<open>
  C7. The options of the hub change only in the fallback branch, that is, when the
  hub has no endpoint, the user gave no nameserver string and the system defaults were
  read without an error. There the ndots of the options becomes the system's if and
  only if the ndots flag of the user is 0, and the search list of the options becomes
  the system's if and only if that list is not empty and the user asked for the search
  list. In every other case, also when the loader returns an error, the options are
  left as they were; the flags of the user are never changed.
\<close>

theorem reconciliation:
  "ResolverOpts (fst (loadNameservers Parse d hub)) =
     (case d of
        Inr (dnsServers, ndots, search) \<Rightarrow>
          if Nameservers hub = [] \<and> Nameservers_qf (QueryFlags hub) = [] then
            \<lparr>Ndots = (if Ndots_qf (QueryFlags hub) = 0 then ndots else Ndots (ResolverOpts hub)),
             SearchList = (if search \<noteq> [] \<and> UseSearchList (QueryFlags hub) then search
                           else SearchList (ResolverOpts hub))\<rparr>
          else ResolverOpts hub
      | Inl err \<Rightarrow> ResolverOpts hub)
   \<and> QueryFlags (fst (loadNameservers Parse d hub)) = QueryFlags hub"
proof -
  from first_failure [of Parse "Nameservers_qf (QueryFlags hub)"]
  show ?thesis
  proof
    assume ok: "list_all (\<lambda>s. snd (initNameserver Parse s) = None) (Nameservers_qf (QueryFlags hub))"
    show ?thesis
      by (auto simp add: loadNameservers_parsed [OF ok] Let_def split: sum.splits)
  next
    assume "\<exists>pre bad rest. Nameservers_qf (QueryFlags hub) = pre @ bad # rest
         \<and> list_all (\<lambda>s. snd (initNameserver Parse s) = None) pre
         \<and> snd (initNameserver Parse bad) \<noteq> None"
    then obtain pre bad rest where "Nameservers_qf (QueryFlags hub) = pre @ bad # rest"
        "list_all (\<lambda>s. snd (initNameserver Parse s) = None) pre"
        "snd (initNameserver Parse bad) \<noteq> None"
      by blast
    from nameservers_loop_failure [OF this(2) this(3), of rest hub] this(1) show ?thesis
      by (auto simp add: loadNameservers_def split: sum.splits)
  qed
qed

theorem reconciliation_witness:
  "ResolverOpts (fst (loadNameservers go_Parse (Inr ([''192.168.1.1''], 2, [''lan''])) (hub_of [] 0 True)))
     = \<lparr>Ndots = 2, SearchList = [''lan'']\<rparr>
   \<and> ResolverOpts (fst (loadNameservers go_Parse (Inr ([''192.168.1.1''], 2, [''lan''])) (hub_of [] 5 False)))
     = \<lparr>Ndots = 5, SearchList = []\<rparr>
   \<and> ResolverOpts (fst (loadNameservers go_Parse (Inr ([''192.168.1.1''], 2, [''lan'']))
        (hub_of [''8.8.8.8''] 0 True)))
     = \<lparr>Ndots = 0, SearchList = []\<rparr>"
  using reconciliation [of go_Parse "Inr ([''192.168.1.1''], 2, [''lan''])" "hub_of [] 0 True"]
    reconciliation [of go_Parse "Inr ([''192.168.1.1''], 2, [''lan''])" "hub_of [] 5 False"]
    reconciliation [of go_Parse "Inr ([''192.168.1.1''], 2, [''lan''])" "hub_of [''8.8.8.8''] 0 True"]
  by (simp add: hub_of_def)

end
